theory Spec2Isabelle
  imports Complex_Main "HOL-Library.AList" "HOL-Library.Log_Nat" "HOL-Library.Multiset"
begin

section \<open>JavaScript values\<close>

text \<open>
  The profiling code works on rows of type \<^verbatim>\<open>Record<string, any>\<close>. The values that the
  decoders put into a row are the primitives: \<^verbatim>\<open>undefined\<close>, \<^verbatim>\<open>null\<close>, booleans,
  numbers and strings.

  A number is a double: one of \<^verbatim>\<open>NaN\<close>, \<^verbatim>\<open>Infinity\<close>, \<^verbatim>\<open>-Infinity\<close>, or a real. The
  reals that arithmetic and parsing produce are rounded to the nearest double, a tie
  going to the even significand, and overflow to an infinity where a double would. The
  sign of zero is not modelled.

  A string is a list of characters, each read as one UTF-16 code unit below 256.
\<close>

datatype jsnum = NaN | PInf | NInf | Fin real

datatype jsval = JUndefined | JNull | JBool bool | JNum jsnum | JStr string

subsection \<open>Rounding to a double\<close>

definition pow2 :: "int \<Rightarrow> real" where
  "pow2 e = (if 0 \<le> e then 2 ^ nat e else 1 / 2 ^ nat (- e))"

text \<open>The nearest integer, a tie going to the even one.\<close>

definition round_half_even :: "real \<Rightarrow> int" where
  "round_half_even q =
     (let f = \<lfloor>q\<rfloor>; d = q - of_int f
      in if d < 1 / 2 then f
         else if 1 / 2 < d then f + 1
         else if even f then f else f + 1)"

text \<open>The binary exponent of a positive real \<open>x\<close>: the \<open>e\<close> with \<open>2^e \<le> x < 2^(e+1)\<close>.\<close>

definition binary_exponent :: "real \<Rightarrow> int" where
  "binary_exponent x = (if 1 \<le> x then bitlen \<lfloor>x\<rfloor> - 1 else - bitlen (\<lceil>1 / x\<rceil> - 1))"

text \<open>
  The double nearest to a real, for a real within the range of the doubles. A double
  has a significand of 53 bits; below \<open>2^-1022\<close> the doubles are \<open>2^-1074\<close> apart.
\<close>

definition fl :: "real \<Rightarrow> real" where
  "fl x =
     (if x = 0 then 0
      else
        (let e = max (binary_exponent \<bar>x\<bar>) (- 1022);
             u = pow2 (e - 52)
         in of_int (round_half_even (x / u)) * u))"

text \<open>A real beyond the range of the doubles becomes an infinity.\<close>

definition to_double :: "real \<Rightarrow> jsnum" where
  "to_double x =
     (if 2 ^ 1024 - 2 ^ 970 \<le> x then PInf
      else if x \<le> - (2 ^ 1024 - 2 ^ 970) then NInf
      else Fin (fl x))"

subsection \<open>Arithmetic on numbers\<close>

definition isNaN :: "jsnum \<Rightarrow> bool" where
  "isNaN n \<longleftrightarrow> n = NaN"

definition isFinite :: "jsnum \<Rightarrow> bool" where
  "isFinite n \<longleftrightarrow> (case n of Fin _ \<Rightarrow> True | _ \<Rightarrow> False)"

fun num_neg :: "jsnum \<Rightarrow> jsnum" where
  "num_neg NaN = NaN"
| "num_neg PInf = NInf"
| "num_neg NInf = PInf"
| "num_neg (Fin x) = Fin (- x)"



text \<open>The sign of a number: \<open>-1\<close>, \<open>0\<close> or \<open>1\<close>; \<open>NaN\<close> has none.\<close>

fun num_sign :: "jsnum \<Rightarrow> int option" where
  "num_sign NaN = None"
| "num_sign PInf = Some 1"
| "num_sign NInf = Some (- 1)"
| "num_sign (Fin x) = Some (if x < 0 then - 1 else if x = 0 then 0 else 1)"

definition inf_of_sign :: "int \<Rightarrow> jsnum" where
  "inf_of_sign s = (if s = 0 then NaN else if 0 < s then PInf else NInf)"

fun num_mul :: "jsnum \<Rightarrow> jsnum \<Rightarrow> jsnum" where
  "num_mul (Fin x) (Fin y) = to_double (x * y)"
| "num_mul a b =
     (case (num_sign a, num_sign b) of
        (Some s, Some t) \<Rightarrow> inf_of_sign (s * t)
      | _ \<Rightarrow> NaN)"

text \<open>
  Division: a finite number over an infinity is zero, an infinity over an infinity is
  \<open>NaN\<close>, and a division by zero gives \<open>NaN\<close> for \<open>0/0\<close> and an infinity otherwise.
\<close>

fun num_div :: "jsnum \<Rightarrow> jsnum \<Rightarrow> jsnum" where
  "num_div NaN _ = NaN"
| "num_div _ NaN = NaN"
| "num_div (Fin x) (Fin y) =
     (if y = 0 then inf_of_sign (if x < 0 then - 1 else if x = 0 then 0 else 1)
      else to_double (x / y))"
| "num_div (Fin x) _ = Fin 0"
| "num_div a (Fin y) =
     (case num_sign a of
        Some s \<Rightarrow> inf_of_sign (if y < 0 then - s else s)
      | None \<Rightarrow> NaN)"
| "num_div _ _ = NaN"


text \<open>\<^verbatim>\<open>Math.round\<close>: the nearest integer, a half rounding up; the result is exact.\<close>

fun math_round :: "jsnum \<Rightarrow> jsnum" where
  "math_round (Fin x) = Fin (of_int \<lfloor>x + 1 / 2\<rfloor>)"
| "math_round n = n"



text \<open>The comparisons \<^verbatim>\<open><=\<close> and \<^verbatim>\<open><\<close>; both are false when an operand is \<open>NaN\<close>.\<close>

fun num_le :: "jsnum \<Rightarrow> jsnum \<Rightarrow> bool" where
  "num_le NaN _ = False"
| "num_le _ NaN = False"
| "num_le NInf _ = True"
| "num_le _ PInf = True"
| "num_le (Fin x) (Fin y) = (x \<le> y)"
| "num_le _ _ = False"


text \<open>
  \<^verbatim>\<open>Math.min(...xs)\<close> and \<^verbatim>\<open>Math.max(...xs)\<close>: \<open>NaN\<close> as soon as one argument is,
  and an infinity for no argument.
\<close>

definition num_min2 :: "jsnum \<Rightarrow> jsnum \<Rightarrow> jsnum" where
  "num_min2 a b = (if a = NaN \<or> b = NaN then NaN else if num_le a b then a else b)"

definition num_max2 :: "jsnum \<Rightarrow> jsnum \<Rightarrow> jsnum" where
  "num_max2 a b = (if a = NaN \<or> b = NaN then NaN else if num_le a b then b else a)"

definition math_min :: "jsnum list \<Rightarrow> jsnum" where
  "math_min xs = foldl num_min2 PInf xs"

definition math_max :: "jsnum list \<Rightarrow> jsnum" where
  "math_max xs = foldl num_max2 NInf xs"



section \<open>Strings\<close>

text \<open>
  White space as \<^verbatim>\<open>String.prototype.trim\<close> and the class \<^verbatim>\<open>\s\<close> see it: tab, line feed,
  vertical tab, form feed, carriage return, space and the no-break space.
\<close>

definition is_ws :: "char \<Rightarrow> bool" where
  "is_ws c \<longleftrightarrow> (of_char c :: nat) \<in> {9, 10, 11, 12, 13, 32, 160}"

definition trim :: "string \<Rightarrow> string" where
  "trim s = rev (dropWhile is_ws (rev (dropWhile is_ws s)))"

definition is_digit :: "char \<Rightarrow> bool" where
  "is_digit c \<longleftrightarrow> 48 \<le> (of_char c :: nat) \<and> (of_char c :: nat) \<le> 57"

definition digit_val :: "char \<Rightarrow> nat" where
  "digit_val c = of_char c - 48"

definition digits_val :: "string \<Rightarrow> nat" where
  "digits_val ds = foldl (\<lambda>a c. 10 * a + digit_val c) 0 ds"

text \<open>\<^verbatim>\<open>toLowerCase\<close> on code units below 256: the letters A to Z and the accented capitals.\<close>

definition upper_chars :: string where
  "upper_chars = ''ABCDEFGHIJKLMNOPQRSTUVWXYZ'' @
     [CHR 0xC0, CHR 0xC1, CHR 0xC2, CHR 0xC3, CHR 0xC4, CHR 0xC5, CHR 0xC6, CHR 0xC7,
      CHR 0xC8, CHR 0xC9, CHR 0xCA, CHR 0xCB, CHR 0xCC, CHR 0xCD, CHR 0xCE, CHR 0xCF,
      CHR 0xD0, CHR 0xD1, CHR 0xD2, CHR 0xD3, CHR 0xD4, CHR 0xD5, CHR 0xD6,
      CHR 0xD8, CHR 0xD9, CHR 0xDA, CHR 0xDB, CHR 0xDC, CHR 0xDD, CHR 0xDE]"

definition lower_chars :: string where
  "lower_chars = ''abcdefghijklmnopqrstuvwxyz'' @
     [CHR 0xE0, CHR 0xE1, CHR 0xE2, CHR 0xE3, CHR 0xE4, CHR 0xE5, CHR 0xE6, CHR 0xE7,
      CHR 0xE8, CHR 0xE9, CHR 0xEA, CHR 0xEB, CHR 0xEC, CHR 0xED, CHR 0xEE, CHR 0xEF,
      CHR 0xF0, CHR 0xF1, CHR 0xF2, CHR 0xF3, CHR 0xF4, CHR 0xF5, CHR 0xF6,
      CHR 0xF8, CHR 0xF9, CHR 0xFA, CHR 0xFB, CHR 0xFC, CHR 0xFD, CHR 0xFE]"

definition to_lower_char :: "char \<Rightarrow> char" where
  "to_lower_char c = (case map_of (zip upper_chars lower_chars) c of Some l \<Rightarrow> l | None \<Rightarrow> c)"

definition to_lower :: "string \<Rightarrow> string" where
  "to_lower s = map to_lower_char s"

text \<open>Does \<open>p\<close> start \<open>s\<close>, and does \<open>p\<close> occur in \<open>s\<close>.\<close>

fun starts_with :: "string \<Rightarrow> string \<Rightarrow> bool" where
  "starts_with [] s = True"
| "starts_with (p # ps) [] = False"
| "starts_with (p # ps) (c # cs) = (p = c \<and> starts_with ps cs)"


subsection \<open>Numbers to strings\<close>

definition digit_char :: "nat \<Rightarrow> char" where
  "digit_char d = ''0123456789'' ! d"

function nat_to_string :: "nat \<Rightarrow> string" where
  "nat_to_string n =
     (if n < 10 then [digit_char n]
      else nat_to_string (n div 10) @ [digit_char (n mod 10)])"
  by pat_completeness auto
termination
  by (relation "measure id") auto

declare nat_to_string.simps [simp del]

text \<open>
  The host's built-in functions that the code calls and that are left open here: the
  string of a number that is not an integer below \<open>10^21\<close>; \<^verbatim>\<open>Date.parse\<close>, whose result
  is a time value, a whole number of milliseconds, or \<open>NaN\<close> (here \<open>None\<close>), and which
  accepts what the host likes beyond the ISO format; \<^verbatim>\<open>getFullYear\<close> of a time value,
  which depends on the local time zone; and \<^verbatim>\<open>toISOString\<close> of a time value. Every
  function below that reaches one of them takes the host as its first argument.
\<close>

record engine =
  fmt_num :: "real \<Rightarrow> string"
  date_parse :: "string \<Rightarrow> int option"
  full_year :: "int \<Rightarrow> int"
  to_iso :: "int \<Rightarrow> string"

definition num_to_string :: "engine \<Rightarrow> jsnum \<Rightarrow> string" where
  "num_to_string E n =
     (case n of
        NaN \<Rightarrow> ''NaN''
      | PInf \<Rightarrow> ''Infinity''
      | NInf \<Rightarrow> ''-Infinity''
      | Fin x \<Rightarrow>
          if of_int \<lfloor>x\<rfloor> = x \<and> \<bar>x\<bar> < 10 ^ 21
          then (if x < 0 then ''-'' else []) @ nat_to_string (nat \<bar>\<lfloor>x\<rfloor>\<bar>)
          else fmt_num E x)"

text \<open>\<^verbatim>\<open>String(v)\<close>.\<close>

definition js_string :: "engine \<Rightarrow> jsval \<Rightarrow> string" where
  "js_string E v =
     (case v of
        JUndefined \<Rightarrow> ''undefined''
      | JNull \<Rightarrow> ''null''
      | JBool b \<Rightarrow> (if b then ''true'' else ''false'')
      | JNum n \<Rightarrow> num_to_string E n
      | JStr s \<Rightarrow> s)"

subsection \<open>Strings to numbers\<close>

definition pow10 :: "int \<Rightarrow> real" where
  "pow10 e = (if 0 \<le> e then 10 ^ nat e else 1 / 10 ^ nat (- e))"

text \<open>
  An exponent part \<^verbatim>\<open>e\<close>, optional sign, digits, at the head of \<open>s\<close>: its value and what
  follows it; without a digit there is no exponent part.
\<close>

definition parse_exponent :: "string \<Rightarrow> int \<times> string" where
  "parse_exponent s =
     (case s of
        [] \<Rightarrow> (0, s)
      | c # t \<Rightarrow>
          if c = CHR ''e'' \<or> c = CHR ''E'' then
            (let sgn = (if t \<noteq> [] \<and> hd t = CHR ''-'' then - 1 else 1);
                 u = (if t \<noteq> [] \<and> (hd t = CHR ''+'' \<or> hd t = CHR ''-'') then tl t else t);
                 ds = takeWhile is_digit u
             in if ds = [] then (0, s)
                else (sgn * int (digits_val ds), dropWhile is_digit u))
          else (0, s))"

text \<open>
  The longest prefix of \<open>s\<close> that is an unsigned decimal literal (\<^verbatim>\<open>Infinity\<close>, or digits
  with an optional fraction and exponent), with its value and the rest of \<open>s\<close>.
\<close>

definition parse_unsigned_decimal :: "string \<Rightarrow> (jsnum \<times> string) option" where
  "parse_unsigned_decimal s =
     (if starts_with ''Infinity'' s then Some (PInf, drop 8 s)
      else
        (let ip = takeWhile is_digit s;
             r1 = dropWhile is_digit s;
             has_dot = (r1 \<noteq> [] \<and> hd r1 = CHR ''.'');
             fp = (if has_dot then takeWhile is_digit (tl r1) else []);
             r2 = (if has_dot then dropWhile is_digit (tl r1) else r1)
         in if ip = [] \<and> fp = [] then None
            else
              (let ex = parse_exponent r2;
                   m = real (digits_val ip) + real (digits_val fp) / 10 ^ length fp
               in Some (to_double (m * pow10 (fst ex)), snd ex))))"

definition parse_decimal :: "string \<Rightarrow> (jsnum \<times> string) option" where
  "parse_decimal s =
     (case s of
        [] \<Rightarrow> None
      | c # t \<Rightarrow>
          if c = CHR ''+'' then parse_unsigned_decimal t
          else if c = CHR ''-'' then
            map_option (\<lambda>p. (num_neg (fst p), snd p)) (parse_unsigned_decimal t)
          else parse_unsigned_decimal s)"

text \<open>\<^verbatim>\<open>parseFloat\<close> of a string: leading white space is skipped, what follows the literal is ignored.\<close>

definition parse_float_str :: "string \<Rightarrow> jsnum" where
  "parse_float_str s =
     (case parse_decimal (dropWhile is_ws s) of None \<Rightarrow> NaN | Some p \<Rightarrow> fst p)"

text \<open>
  \<^verbatim>\<open>parseFloat(v)\<close> turns \<open>v\<close> into a string first. The string of a number reads back as
  that number; the strings of \<^verbatim>\<open>undefined\<close>, \<^verbatim>\<open>null\<close> and the booleans are no literals.
\<close>

definition parseFloat :: "jsval \<Rightarrow> jsnum" where
  "parseFloat v =
     (case v of JStr s \<Rightarrow> parse_float_str s | JNum n \<Rightarrow> n | _ \<Rightarrow> NaN)"

text \<open>Literals in base 16, 8 and 2, as \<^verbatim>\<open>Number\<close> reads them after \<^verbatim>\<open>0x\<close>, \<^verbatim>\<open>0o\<close>, \<^verbatim>\<open>0b\<close>.\<close>

definition radix_digit :: "char \<Rightarrow> nat option" where
  "radix_digit c =
     (let n = (of_char c :: nat) in
      if 48 \<le> n \<and> n \<le> 57 then Some (n - 48)
      else if 97 \<le> n \<and> n \<le> 102 then Some (n - 87)
      else if 65 \<le> n \<and> n \<le> 70 then Some (n - 55)
      else None)"

definition parse_radix :: "nat \<Rightarrow> string \<Rightarrow> jsnum" where
  "parse_radix b ds =
     (if ds \<noteq> [] \<and> list_all (\<lambda>c. case radix_digit c of Some d \<Rightarrow> d < b | None \<Rightarrow> False) ds
      then to_double
             (real (foldl (\<lambda>a c. b * a + (case radix_digit c of Some d \<Rightarrow> d | None \<Rightarrow> 0)) 0 ds))
      else NaN)"

text \<open>\<^verbatim>\<open>Number(s)\<close> for a string: the whole trimmed string has to be a literal; the empty string is zero.\<close>

definition to_number_str :: "string \<Rightarrow> jsnum" where
  "to_number_str s =
     (let t = trim s in
      if t = [] then Fin 0
      else if starts_with ''0x'' t \<or> starts_with ''0X'' t then parse_radix 16 (drop 2 t)
      else if starts_with ''0o'' t \<or> starts_with ''0O'' t then parse_radix 8 (drop 2 t)
      else if starts_with ''0b'' t \<or> starts_with ''0B'' t then parse_radix 2 (drop 2 t)
      else (case parse_decimal t of
              Some p \<Rightarrow> (if snd p = [] then fst p else NaN)
            | None \<Rightarrow> NaN))"

text \<open>\<^verbatim>\<open>Number(v)\<close>.\<close>

definition to_number :: "jsval \<Rightarrow> jsnum" where
  "to_number v =
     (case v of
        JUndefined \<Rightarrow> NaN
      | JNull \<Rightarrow> Fin 0
      | JBool b \<Rightarrow> (if b then Fin 1 else Fin 0)
      | JNum n \<Rightarrow> n
      | JStr s \<Rightarrow> to_number_str s)"

subsection \<open>Equality of values\<close>

text \<open>
  \<^verbatim>\<open>Array.prototype.includes\<close> compares with SameValueZero: two values of the same type
  with the same content, \<open>NaN\<close> being the same as itself. Strict equality \<^verbatim>\<open>===\<close>
  differs in that one point: \<open>NaN\<close> is not equal to itself.
\<close>

definition same_value_zero :: "jsval \<Rightarrow> jsval \<Rightarrow> bool" where
  "same_value_zero a b \<longleftrightarrow> a = b"

definition strict_equals :: "jsval \<Rightarrow> jsval \<Rightarrow> bool" where
  "strict_equals a b \<longleftrightarrow> a = b \<and> a \<noteq> JNum NaN"

definition array_includes :: "jsval list \<Rightarrow> jsval \<Rightarrow> bool" where
  "array_includes xs v \<longleftrightarrow> list_ex (same_value_zero v) xs"

subsection \<open>Time values\<close>

text \<open>The number that \<^verbatim>\<open>getTime\<close> gives for a time value.\<close>

definition time_num :: "int option \<Rightarrow> jsnum" where
  "time_num t = (case t of None \<Rightarrow> NaN | Some ms \<Rightarrow> Fin (of_int ms))"

text \<open>\<^verbatim>\<open>Date.parse(v)\<close>: the string of \<open>v\<close> is parsed.\<close>

definition Date_parse :: "engine \<Rightarrow> jsval \<Rightarrow> jsnum" where
  "Date_parse E v = time_num (date_parse E (js_string E v))"

text \<open>
  \<^verbatim>\<open>new Date(v)\<close>: a string is parsed; any other value is turned into a number, which
  is cut to a whole number and is a time value up to \<open>8.64e15\<close> in absolute value.
\<close>

definition time_clip :: "jsnum \<Rightarrow> int option" where
  "time_clip n =
     (case n of
        Fin x \<Rightarrow> if \<bar>x\<bar> \<le> 8640000000000000 then Some (if x < 0 then \<lceil>x\<rceil> else \<lfloor>x\<rfloor>) else None
      | _ \<Rightarrow> None)"

definition new_Date :: "engine \<Rightarrow> jsval \<Rightarrow> int option" where
  "new_Date E v = (case v of JStr s \<Rightarrow> date_parse E s | _ \<Rightarrow> time_clip (to_number v))"

section \<open>Rows\<close>

text \<open>
  A row is an object with string keys: the list of its own properties in the order
  \<^verbatim>\<open>Object.keys\<close> gives them. Reading a key the row does not have gives \<^verbatim>\<open>undefined\<close>;
  properties inherited from the prototype of objects, and the key \<^verbatim>\<open>__proto__\<close> that sets
  it, are left out of the model.
\<close>

type_synonym row = "(string \<times> jsval) list"

definition object_keys :: "row \<Rightarrow> string list" where
  "object_keys r = map fst r"

definition row_get :: "row \<Rightarrow> string \<Rightarrow> jsval" where
  "row_get r k = (case map_of r k of None \<Rightarrow> JUndefined | Some v \<Rightarrow> v)"

section \<open>The filter engine\<close>

text \<open>
  A filter is \<^verbatim>\<open>{ column: string; values?: any[]; min?: any; max?: any }\<close>. An absent
  \<^verbatim>\<open>values\<close> is \<open>None\<close>; an absent bound reads as \<^verbatim>\<open>undefined\<close>.
\<close>

record filter_spec =
  column :: string
  values_incl :: "jsval list option"
  min_bound :: jsval
  max_bound :: jsval

text \<open>The range test of one filter on one raw value, reached when both bounds are defined.\<close>

definition range_matches :: "engine \<Rightarrow> jsval \<Rightarrow> jsval \<Rightarrow> jsval \<Rightarrow> bool" where
  "range_matches E rawValue minVal maxVal =
     (let num = parseFloat rawValue;
          minNum = (case minVal of JNum n \<Rightarrow> n | _ \<Rightarrow> parseFloat minVal);
          maxNum = (case maxVal of JNum n \<Rightarrow> n | _ \<Rightarrow> parseFloat maxVal);
          bothNumeric = (\<not> isNaN num \<and> \<not> isNaN minNum \<and> \<not> isNaN maxNum)
      in if bothNumeric then num_le minNum num \<and> num_le num maxNum
         else
           (let valTime = Date_parse E rawValue;
                minTime = (case minVal of JStr s \<Rightarrow> Date_parse E minVal | _ \<Rightarrow> to_number minVal);
                maxTime = (case maxVal of JStr s \<Rightarrow> Date_parse E maxVal | _ \<Rightarrow> to_number maxVal)
            in if \<not> isNaN valTime \<and> \<not> isNaN minTime \<and> \<not> isNaN maxTime
               then num_le minTime valTime \<and> num_le valTime maxTime
               else True))"

text \<open>The callback of \<^verbatim>\<open>filters.every\<close>: does the row pass this filter.\<close>

definition filter_matches :: "engine \<Rightarrow> row \<Rightarrow> filter_spec \<Rightarrow> bool" where
  "filter_matches E r f =
     (let rawValue = row_get r (column f) in
      case values_incl f of
        Some (v # vs) \<Rightarrow> array_includes (v # vs) rawValue
      | _ \<Rightarrow>
          if min_bound f \<noteq> JUndefined \<and> max_bound f \<noteq> JUndefined
          then range_matches E rawValue (min_bound f) (max_bound f)
          else True)"

definition applyFilters :: "engine \<Rightarrow> row list \<Rightarrow> filter_spec list \<Rightarrow> row list" where
  "applyFilters E data filters = filter (\<lambda>r. list_all (filter_matches E r) filters) data"

section \<open>Summary statistics\<close>


text \<open>\<^verbatim>\<open>Math.round(x * 100) / 100\<close>.\<close>

definition round2 :: "jsnum \<Rightarrow> jsnum" where
  "round2 x = num_div (math_round (num_mul x (Fin 100))) (Fin 100)"


section \<open>The profiler\<close>

subsection \<open>The patterns\<close>

text \<open>\<^verbatim>\<open>/^_+\d+$/\<close>: underscores, then digits, at least one of each.\<close>

definition is_auto_numbered :: "string \<Rightarrow> bool" where
  "is_auto_numbered s =
     (let r = dropWhile (\<lambda>c. c = CHR ''_'') s
      in s \<noteq> [] \<and> hd s = CHR ''_'' \<and> r \<noteq> [] \<and> list_all is_digit r)"

text \<open>
  \<^verbatim>\<open>/^__?EMPTY.*$/i\<close>: one or two underscores and the word in any case; the dot does
  not match a line break, so none may follow.
\<close>

definition no_line_break :: "string \<Rightarrow> bool" where
  "no_line_break s = list_all (\<lambda>c. c \<noteq> CHR 0x0A \<and> c \<noteq> CHR 0x0D) s"

definition is_empty_marker :: "string \<Rightarrow> bool" where
  "is_empty_marker s =
     ((starts_with ''_empty'' (to_lower s) \<and> no_line_break (drop 6 s)) \<or>
      (starts_with ''__empty'' (to_lower s) \<and> no_line_break (drop 7 s)))"

definition strip_sign :: "string \<Rightarrow> string" where
  "strip_sign s = (case s of [] \<Rightarrow> [] | c # t \<Rightarrow> if c = CHR ''+'' \<or> c = CHR ''-'' then t else s)"

text \<open>An optional fraction \<^verbatim>\<open>(?:\.\d+)?\<close> and then the end of the string.\<close>

definition frac_or_end :: "string \<Rightarrow> bool" where
  "frac_or_end r = (r = [] \<or> (hd r = CHR ''.'' \<and> tl r \<noteq> [] \<and> list_all is_digit (tl r)))"

text \<open>What is left of a string once its leading groups \<^verbatim>\<open>[ ,]\d{3}\<close> are taken off.\<close>

fun after_groups :: "string \<Rightarrow> string" where
  "after_groups (s # a # b # c # r) =
     (if (s = CHR '' '' \<or> s = CHR '','') \<and> is_digit a \<and> is_digit b \<and> is_digit c
      then after_groups r else s # a # b # c # r)"
| "after_groups r = r"

text \<open>\<^verbatim>\<open>/^[+-]?\d{1,3}(?:[ ,]\d{3})+(?:\.\d+)?$/\<close>.\<close>

definition thousandsPattern :: "string \<Rightarrow> bool" where
  "thousandsPattern s =
     (let t = strip_sign s;
          d = takeWhile is_digit t;
          r = dropWhile is_digit t
      in 1 \<le> length d \<and> length d \<le> 3 \<and> after_groups r \<noteq> r \<and> frac_or_end (after_groups r))"

text \<open>\<^verbatim>\<open>/^[+-]?\d+(?:\.\d+)?$/\<close>.\<close>

definition simpleNumericPattern :: "string \<Rightarrow> bool" where
  "simpleNumericPattern s =
     (let t = strip_sign s in takeWhile is_digit t \<noteq> [] \<and> frac_or_end (dropWhile is_digit t))"

text \<open>\<^verbatim>\<open>s.replace(/[,\s]/g, '')\<close>.\<close>

definition remove_separators :: "string \<Rightarrow> string" where
  "remove_separators s = filter (\<lambda>c. c \<noteq> CHR '','' \<and> \<not> is_ws c) s"

text \<open>
  \<^verbatim>\<open>name.replace(/\.[^/.]+$/, '')\<close>: the last dot and what follows it go, when at least
  one character follows and none of them is a slash.
\<close>

definition strip_extension :: "string \<Rightarrow> string" where
  "strip_extension s =
     (let ext = takeWhile (\<lambda>c. c \<noteq> CHR ''.'') (rev s)
      in if length ext < length s \<and> ext \<noteq> [] \<and> CHR ''/'' \<notin> set ext
         then take (length s - length ext - 1) s else s)"

subsection \<open>Column names\<close>

text \<open>
  The loop \<^verbatim>\<open>while (existing.includes(candidate)) candidate = `${candidate}_${suffix++}`\<close>.
  Each round makes the candidate longer, and a candidate longer than every existing
  name ends the loop.
\<close>

function dedupe_loop :: "string list \<Rightarrow> string \<Rightarrow> nat \<Rightarrow> string" where
  "dedupe_loop existing candidate suffix =
     (if candidate \<in> set existing
      then dedupe_loop existing (candidate @ ''_'' @ nat_to_string suffix) (Suc suffix)
      else candidate)"
  by pat_completeness auto
termination
proof (relation "measure (\<lambda>(existing, candidate, suffix).
                   Suc (sum_list (map length existing)) - length candidate)")
  show "wf (measure (\<lambda>(existing, candidate, suffix).
              Suc (sum_list (map length existing)) - length candidate))"
    by simp
next
  fix existing :: "string list" and candidate :: string and suffix :: nat
  assume "candidate \<in> set existing"
  then have "length candidate \<le> sum_list (map length existing)"
    by (induction existing) auto
  then show "((existing, candidate @ ''_'' @ nat_to_string suffix, Suc suffix),
              (existing, candidate, suffix))
             \<in> measure (\<lambda>(existing, candidate, suffix).
                  Suc (sum_list (map length existing)) - length candidate)"
    by simp
qed

declare dedupe_loop.simps [simp del]

text \<open>
  The closure \<^verbatim>\<open>sanitize\<close> reads the map of the names given so far and reads and
  bumps the counter \<^verbatim>\<open>colCounter\<close>; it returns the name and the counter. A key of an
  object is a string already, so \<^verbatim>\<open>String(name || '')\<close> is the key itself.
\<close>

definition sanitize :: "(string \<times> string) list \<Rightarrow> nat \<Rightarrow> string \<Rightarrow> string \<times> nat" where
  "sanitize nameMap colCounter raw =
     (let trimmed = trim raw;
          invalid = (trimmed = [] \<or> is_auto_numbered trimmed \<or> is_empty_marker trimmed);
          candidate = (if invalid then ''Column_'' @ nat_to_string colCounter else trimmed);
          colCounter' = (if invalid then colCounter + 1 else colCounter);
          existing = map snd nameMap
      in (dedupe_loop existing candidate 1, colCounter'))"

text \<open>
  \<^verbatim>\<open>rawColumnNames.forEach((n) => nameMap.set(n, sanitize(n)))\<close>, from the empty map and
  the counter 1. A \<^verbatim>\<open>Map\<close> keeps its keys in the order of their first insertion, which is
  what \<^const>\<open>AList.update\<close> does.
\<close>

definition sanitize_step :: "(string \<times> string) list \<times> nat \<Rightarrow> string \<Rightarrow> (string \<times> string) list \<times> nat" where
  "sanitize_step st n =
     (let res = sanitize (fst st) (snd st) n in (AList.update n (fst res) (fst st), snd res))"

definition build_nameMap :: "string list \<Rightarrow> (string \<times> string) list" where
  "build_nameMap rawColumnNames = fst (foldl sanitize_step ([], 1) rawColumnNames)"

subsection \<open>Cleaned rows\<close>

text \<open>The loose test \<^verbatim>\<open>v !== null && v !== undefined && v !== ''\<close>, negated.\<close>

definition is_empty_value :: "jsval \<Rightarrow> bool" where
  "is_empty_value v \<longleftrightarrow> v = JNull \<or> v = JUndefined \<or> v = JStr []"

definition clean_value :: "jsval \<Rightarrow> jsval" where
  "clean_value val =
     (case val of
        JNull \<Rightarrow> JStr []
      | JUndefined \<Rightarrow> JStr []
      | JStr s \<Rightarrow>
          (let trimmed = trim s in
           if thousandsPattern trimmed then
             (let parsed = to_number_str (remove_separators trimmed)
              in if \<not> isNaN parsed then JNum parsed else JStr trimmed)
           else if simpleNumericPattern trimmed then
             (let parsed = to_number_str trimmed
              in if \<not> isNaN parsed then JNum parsed else JStr trimmed)
           else JStr trimmed)
      | _ \<Rightarrow> val)"

text \<open>\<^verbatim>\<open>nameMap.get(orig)!\<close>; a key that is not in the map would read as \<^verbatim>\<open>undefined\<close>.\<close>

definition name_of :: "(string \<times> string) list \<Rightarrow> string \<Rightarrow> string" where
  "name_of nameMap orig = (case map_of nameMap orig of Some n \<Rightarrow> n | None \<Rightarrow> ''undefined'')"

text \<open>
  The callback of \<^verbatim>\<open>data.map\<close>: the new row gets one property for each raw column
  name, in that order. The functions here read a cleaned row by key only, so the
  order of its properties is not observed.
\<close>

definition clean_row :: "(string \<times> string) list \<Rightarrow> string list \<Rightarrow> row \<Rightarrow> row" where
  "clean_row nameMap rawColumnNames r =
     foldl (\<lambda>newRow orig. AList.update (name_of nameMap orig) (clean_value (row_get r orig)) newRow)
       [] rawColumnNames"

subsection \<open>Type detection\<close>

datatype column_type = TString | TInteger | TFloat | TDate | TBoolean

record type_counts =
  numericCount :: nat
  integerCount :: nat
  dateCount :: nat
  booleanCount :: nat

text \<open>\<^verbatim>\<open>Number.isInteger\<close>.\<close>

definition is_integer :: "jsnum \<Rightarrow> bool" where
  "is_integer n = (case n of Fin x \<Rightarrow> of_int \<lfloor>x\<rfloor> = x | _ \<Rightarrow> False)"

text \<open>The body of the loop over the values: at most one counter pair is bumped.\<close>

definition count_value :: "engine \<Rightarrow> type_counts \<Rightarrow> jsval \<Rightarrow> type_counts" where
  "count_value E c v =
     (let stringValue = trim (to_lower (js_string E v)) in
      if stringValue \<in> set [''true'', ''false'', ''1'', ''0'', ''yes'', ''no'']
      then c\<lparr>booleanCount := booleanCount c + 1\<rparr>
      else
        (let numericValue = to_number_str (remove_separators stringValue) in
         if (thousandsPattern stringValue \<or> simpleNumericPattern stringValue)
            \<and> \<not> isNaN numericValue \<and> isFinite numericValue
         then c\<lparr>numericCount := numericCount c + 1,
                integerCount := (if is_integer numericValue then integerCount c + 1
                                 else integerCount c)\<rparr>
         else if date_parse E stringValue \<noteq> None \<and> length stringValue > 4
         then c\<lparr>dateCount := dateCount c + 1\<rparr>
         else c))"

text \<open>
  The fractions are quotients of two array lengths. A quotient of naturals below
  \<open>2^32\<close> is at least \<open>0.8\<close> (or \<open>0.9\<close>) as a double exactly when it is as a real.
\<close>

definition detectColumnType :: "engine \<Rightarrow> jsval list \<Rightarrow> column_type" where
  "detectColumnType E vs =
     (if length vs = 0 then TString
      else
        (let c = foldl (count_value E)
                   \<lparr>numericCount = 0, integerCount = 0, dateCount = 0, booleanCount = 0\<rparr> vs;
             total = length vs;
             threshold = (8 / 10 :: real)
         in if real (booleanCount c) / real total \<ge> threshold then TBoolean
            else if real (dateCount c) / real total \<ge> threshold then TDate
            else if real (numericCount c) / real total \<ge> threshold
            then (if real (integerCount c) / real (numericCount c) \<ge> 9 / 10
                  then TInteger else TFloat)
            else TString))"

subsection \<open>Columns\<close>

record dataset_column =
  name :: string
  ctype :: column_type
  unique_values :: nat
  sample_values :: "jsval list option"
  cmin :: "jsval option"
  cmax :: "jsval option"

text \<open>The values of \<^verbatim>\<open>new Set(values)\<close> in the order of \<^verbatim>\<open>Array.from\<close>: first occurrences.\<close>

fun set_values :: "jsval list \<Rightarrow> jsval list" where
  "set_values [] = []"
| "set_values (x # xs) = x # filter (\<lambda>y. \<not> same_value_zero y x) (set_values xs)"

text \<open>The least and the greatest of a list of time values that is not empty.\<close>

definition min_time :: "int list \<Rightarrow> int" where
  "min_time ts = foldl min (hd ts) (tl ts)"

definition max_time :: "int list \<Rightarrow> int" where
  "max_time ts = foldl max (hd ts) (tl ts)"

definition analyzeColumn :: "engine \<Rightarrow> string \<Rightarrow> jsval list \<Rightarrow> dataset_column" where
  "analyzeColumn E nm vs =
     (if length vs = 0
      then \<lparr>name = nm, ctype = TString, unique_values = 0,
            sample_values = None, cmin = None, cmax = None\<rparr>
      else
        (let uniqueValues = set_values vs;
             nonEmptyValues = filter (\<lambda>v. \<not> is_empty_value v) vs;
             ty = detectColumnType E nonEmptyValues;
             col = \<lparr>name = nm, ctype = ty, unique_values = length uniqueValues,
                    sample_values = Some (take 5 uniqueValues), cmin = None, cmax = None\<rparr>
         in if ty = TInteger \<or> ty = TFloat then
              (let numericValues = filter (\<lambda>n. \<not> isNaN n) (map parseFloat nonEmptyValues)
               in if length numericValues > 0
                  then col\<lparr>cmin := Some (JNum (math_min numericValues)),
                           cmax := Some (JNum (math_max numericValues))\<rparr>
                  else col)
            else if ty = TDate then
              (let dateValues = concat (map (\<lambda>v. case new_Date E v of None \<Rightarrow> [] | Some t \<Rightarrow> [t])
                                          nonEmptyValues)
               in if length dateValues > 0
                  then col\<lparr>cmin := Some (JStr (to_iso E (min_time dateValues))),
                           cmax := Some (JStr (to_iso E (max_time dateValues)))\<rparr>
                  else col)
            else col))"

subsection \<open>The profile\<close>

datatype error = EmptyDataset

record dataset_profile =
  dataset_name :: string
  columns :: "dataset_column list"
  sample_rows :: "row list"
  rows :: "row list"
  total_rows :: nat

text \<open>The column of a list of rows: the non-empty values under one key.\<close>

definition column_data :: "row list \<Rightarrow> string \<Rightarrow> jsval list" where
  "column_data cleanedData columnName =
     filter (\<lambda>v. \<not> is_empty_value v) (map (\<lambda>r. row_get r columnName) cleanedData)"

definition nonEmptyColumns :: "(string \<times> string) list \<Rightarrow> row list \<Rightarrow> string list" where
  "nonEmptyColumns nameMap cleanedData =
     filter (\<lambda>col. list_ex (\<lambda>r. \<not> is_empty_value (row_get r col)) cleanedData) (map snd nameMap)"

text \<open>
  The argument \<open>data\<close> is \<open>None\<close> for an absent array (\<^verbatim>\<open>!data\<close>). The error stands for
  \<^verbatim>\<open>throw new Error('Dataset is empty or invalid')\<close>.
\<close>

definition generateDatasetProfile ::
  "engine \<Rightarrow> row list option \<Rightarrow> string \<Rightarrow> error + dataset_profile" where
  "generateDatasetProfile E data datasetName =
     (case data of
        None \<Rightarrow> Inl EmptyDataset
      | Some [] \<Rightarrow> Inl EmptyDataset
      | Some (firstRow # rest) \<Rightarrow>
          (let rawColumnNames = object_keys firstRow;
               nameMap = build_nameMap rawColumnNames;
               cleanedData = map (clean_row nameMap rawColumnNames) (firstRow # rest);
               cols = map (\<lambda>columnName. analyzeColumn E columnName (column_data cleanedData columnName))
                        (nonEmptyColumns nameMap cleanedData);
               sampleRows = take 10 cleanedData
           in Inr \<lparr>dataset_name = strip_extension datasetName,
                   columns = cols,
                   sample_rows = sampleRows,
                   rows = cleanedData,
                   total_rows = length cleanedData\<rparr>))"

section \<open>Local analytics\<close>







subsection \<open>The four insights\<close>













section \<open>A host for the examples\<close>

text \<open>
  The examples below need one concrete host. This one reads dates of the form
  \<^verbatim>\<open>YYYY-MM-DD\<close> only (every host has to read those, as midnight UTC), takes the year
  of a time value in UTC, and prints the numbers that have at most three decimals. The
  days of the civil calendar are counted from 1970-01-01.
\<close>

definition days_from_civil :: "int \<Rightarrow> int \<Rightarrow> int \<Rightarrow> int" where
  "days_from_civil y m d =
     (let y' = (if m \<le> 2 then y - 1 else y);
          era = y' div 400;
          yoe = y' - era * 400;
          doy = (153 * (if m > 2 then m - 3 else m + 9) + 2) div 5 + d - 1;
          doe = yoe * 365 + yoe div 4 - yoe div 100 + doy
      in era * 146097 + doe - 719468)"

definition civil_from_days :: "int \<Rightarrow> int \<times> int \<times> int" where
  "civil_from_days z0 =
     (let z = z0 + 719468;
          era = z div 146097;
          doe = z - era * 146097;
          yoe = (doe - doe div 1460 + doe div 36524 - doe div 146096) div 365;
          doy = doe - (365 * yoe + yoe div 4 - yoe div 100);
          mp = (5 * doy + 2) div 153;
          d = doy - (153 * mp + 2) div 5 + 1;
          m = (if mp < 10 then mp + 3 else mp - 9);
          y = yoe + era * 400 + (if m \<le> 2 then 1 else 0)
      in (y, m, d))"

definition days_in_month :: "int \<Rightarrow> int \<Rightarrow> int" where
  "days_in_month y m =
     (if m = 2 then (if y mod 4 = 0 \<and> (y mod 100 \<noteq> 0 \<or> y mod 400 = 0) then 29 else 28)
      else if m \<in> {4, 6, 9, 11} then 30 else 31)"

definition iso_date_parse :: "string \<Rightarrow> int option" where
  "iso_date_parse s =
     (if length s = 10 \<and> s ! 4 = CHR ''-'' \<and> s ! 7 = CHR ''-''
         \<and> list_all is_digit (take 4 s) \<and> list_all is_digit (take 2 (drop 5 s))
         \<and> list_all is_digit (drop 8 s)
      then
        (let y = int (digits_val (take 4 s));
             m = int (digits_val (take 2 (drop 5 s)));
             d = int (digits_val (drop 8 s))
         in if 1 \<le> m \<and> m \<le> 12 \<and> 1 \<le> d \<and> d \<le> days_in_month y m
            then Some (days_from_civil y m d * 86400000) else None)
      else None)"

definition pad :: "nat \<Rightarrow> int \<Rightarrow> string" where
  "pad w i = replicate (w - length (nat_to_string (nat i))) (CHR ''0'') @ nat_to_string (nat i)"

definition iso_string :: "int \<Rightarrow> string" where
  "iso_string t =
     (let ymd = civil_from_days (t div 86400000);
          y = fst ymd;
          ms = t mod 86400000;
          year = (if 0 \<le> y \<and> y \<le> 9999 then pad 4 y
                  else (if y < 0 then ''-'' else ''+'') @ pad 6 \<bar>y\<bar>)
      in year @ ''-'' @ pad 2 (fst (snd ymd)) @ ''-'' @ pad 2 (snd (snd ymd)) @ ''T''
         @ pad 2 (ms div 3600000) @ '':'' @ pad 2 (ms div 60000 mod 60) @ '':''
         @ pad 2 (ms div 1000 mod 60) @ ''.'' @ pad 3 (ms mod 1000) @ ''Z'')"

definition short_decimal :: "real \<Rightarrow> string" where
  "short_decimal x =
     (let n = nat \<bar>\<lfloor>x * 1000\<rfloor>\<bar>;
          frac = pad 3 (int (n mod 1000))
      in if of_int \<lfloor>x * 1000\<rfloor> = x * 1000
         then (if x < 0 then ''-'' else []) @ nat_to_string (n div 1000) @ ''.''
              @ rev (dropWhile (\<lambda>c. c = CHR ''0'') (rev frac))
         else [])"

definition sample_host :: engine where
  "sample_host =
     \<lparr>fmt_num = short_decimal,
      date_parse = iso_date_parse,
      full_year = (\<lambda>t. fst (civil_from_days (t div 86400000))),
      to_iso = iso_string\<rparr>"

section \<open>The specification's reading of type detection\<close>

text \<open>
  The three tests of a value as the specification words them, on the value's string
  in lower case and trimmed, and the bucket of a value: the first test that holds.
\<close>

datatype bucket = BooleanBucket | NumericBucket | DateBucket

definition spec_string :: "engine \<Rightarrow> jsval \<Rightarrow> string" where
  "spec_string E v = trim (to_lower (js_string E v))"

definition spec_is_boolean :: "engine \<Rightarrow> jsval \<Rightarrow> bool" where
  "spec_is_boolean E v \<longleftrightarrow> spec_string E v \<in> {''true'', ''false'', ''1'', ''0'', ''yes'', ''no''}"

definition spec_is_numeric :: "engine \<Rightarrow> jsval \<Rightarrow> bool" where
  "spec_is_numeric E v \<longleftrightarrow>
     (thousandsPattern (spec_string E v) \<or> simpleNumericPattern (spec_string E v))
     \<and> isFinite (to_number_str (remove_separators (spec_string E v)))"

definition spec_is_date :: "engine \<Rightarrow> jsval \<Rightarrow> bool" where
  "spec_is_date E v \<longleftrightarrow> date_parse E (spec_string E v) \<noteq> None \<and> length (spec_string E v) > 4"

definition spec_bucket :: "engine \<Rightarrow> jsval \<Rightarrow> bucket option" where
  "spec_bucket E v =
     (if spec_is_boolean E v then Some BooleanBucket
      else if spec_is_numeric E v then Some NumericBucket
      else if spec_is_date E v then Some DateBucket
      else None)"

definition bucket_count :: "engine \<Rightarrow> bucket \<Rightarrow> jsval list \<Rightarrow> nat" where
  "bucket_count E b vs = length (filter (\<lambda>v. spec_bucket E v = Some b) vs)"

text \<open>The numeric values whose parsed number is an integer.\<close>

definition integer_count :: "engine \<Rightarrow> jsval list \<Rightarrow> nat" where
  "integer_count E vs =
     length (filter (\<lambda>v. spec_bucket E v = Some NumericBucket
                          \<and> is_integer (to_number_str (remove_separators (spec_string E v)))) vs)"

definition spec_detect :: "engine \<Rightarrow> jsval list \<Rightarrow> column_type" where
  "spec_detect E vs =
     (let total = real (length vs);
          numeric = bucket_count E NumericBucket vs
      in if real (bucket_count E BooleanBucket vs) / total \<ge> 8 / 10 then TBoolean
         else if real (bucket_count E DateBucket vs) / total \<ge> 8 / 10 then TDate
         else if real numeric / total \<ge> 8 / 10
         then (if real (integer_count E vs) / real numeric \<ge> 9 / 10 then TInteger else TFloat)
         else TString)"

section \<open>The suffixes of a column name\<close>

text \<open>The text that \<open>k\<close> rounds of the loop of \<^const>\<open>dedupe_loop\<close> append, the first suffix being \<open>s\<close>.\<close>

definition suffix_chain :: "nat \<Rightarrow> nat \<Rightarrow> string" where
  "suffix_chain s k = concat (map (\<lambda>i. ''_'' @ nat_to_string i) [s..<s + k])"

text \<open>The raw keys that get a generated name.\<close>

definition invalid_key :: "string \<Rightarrow> bool" where
  "invalid_key raw \<longleftrightarrow> trim raw = [] \<or> is_auto_numbered (trim raw) \<or> is_empty_marker (trim raw)"

section \<open>Properties of rounding\<close>

lemma round_half_even_of_int: "round_half_even (of_int k) = k"
  by (simp add: round_half_even_def)


lemma fl_0: "fl 0 = 0"
  by (simp add: fl_def)

text \<open>The integers below \<open>2^53\<close> in absolute value are doubles.\<close>

lemma fl_of_int:
  assumes "\<bar>i\<bar> < 2 ^ 53"
  shows "fl (of_int i) = of_int i"
proof (cases "i = 0")
  case True
  then show ?thesis by (simp add: fl_0)
next
  case False
  then have pos: "0 < \<bar>i\<bar>" by simp
  define e where "e = bitlen \<bar>i\<bar> - 1"
  have "bitlen \<bar>i\<bar> \<le> 53"
    using assms by (simp add: bitlen_le_iff_power)
  moreover have "1 \<le> bitlen \<bar>i\<bar>"
    using pos bitlen_eq_zero_iff [of "\<bar>i\<bar>"] bitlen_nonneg [of "\<bar>i\<bar>"] by linarith
  ultimately have e: "0 \<le> e" "e \<le> 52"
    by (simp_all add: e_def)
  have ab: "\<bar>of_int i :: real\<bar> = of_int \<bar>i\<bar>"
    by simp
  have "1 \<le> (of_int \<bar>i\<bar> :: real)"
    using pos by simp
  then have be: "binary_exponent \<bar>of_int i\<bar> = e"
    unfolding ab by (simp only: binary_exponent_def e_def if_True floor_of_int)
  define k where "k = nat (52 - e)"
  have u: "pow2 (max e (- 1022) - 52) = 1 / 2 ^ k"
  proof (cases "e = 52")
    case True
    then show ?thesis by (simp add: pow2_def k_def)
  next
    case False
    with e have "e < 52" by simp
    with e show ?thesis by (simp add: pow2_def k_def max_def)
  qed
  have q: "of_int i / (1 / 2 ^ k) = (of_int (i * 2 ^ k) :: real)"
    by simp
  have "fl (of_int i) = of_int (round_half_even (of_int i / (1 / 2 ^ k))) * (1 / 2 ^ k)"
    using False by (simp add: fl_def be u Let_def)
  also have "\<dots> = of_int (i * 2 ^ k) * (1 / 2 ^ k)"
    unfolding q round_half_even_of_int ..
  also have "\<dots> = of_int i"
    by simp
  finally show ?thesis .
qed

lemma fl_numeral: "numeral k < (9007199254740992 :: int) \<Longrightarrow> fl (numeral k) = numeral k"
  using fl_of_int [of "numeral k"] by simp

lemma fl_neg_numeral:
  "numeral k < (9007199254740992 :: int) \<Longrightarrow> fl (- numeral k) = - numeral k"
  using fl_of_int [of "- numeral k"] by simp

lemma fl_1: "fl 1 = 1"
  using fl_of_int [of 1] by simp

lemmas fl_int = fl_0 fl_1 fl_numeral fl_neg_numeral

text \<open>The unfolding that evaluates the rounding of a given number.\<close>

lemmas fl_eval = fl_def binary_exponent_def pow2_def round_half_even_def compute_bitlen Let_def

text \<open>
  Two sums and a product that doubles round: \<open>0.1 + 0.2\<close> is not \<open>0.3\<close>, and \<open>1.005\<close>
  times 100 stays below \<open>100.5\<close>.
\<close>

lemma fl_tenth: "fl (1 / 10) = 3602879701896397 / 36028797018963968"
  by (simp add: fl_eval)

lemma fl_1005: "fl (1005 / 1000) = 4526117625507348 / 4503599627370496"
  by (simp add: fl_eval)

lemma fl_1005_times_100:
  "fl (4526117625507348 / 4503599627370496 * 100) = 7072058789855231 / 70368744177664"
  by (simp add: fl_eval)

section \<open>Properties of the filter engine\<close>

lemma no_values_cases:
  assumes "values_incl f = None \<or> values_incl f = Some []"
  shows "filter_matches E r f =
           (if min_bound f \<noteq> JUndefined \<and> max_bound f \<noteq> JUndefined
            then range_matches E (row_get r (column f)) (min_bound f) (max_bound f)
            else True)"
  using assms by (auto simp: filter_matches_def)

lemma bound_parseFloat: "(case b of JNum n \<Rightarrow> n | _ \<Rightarrow> parseFloat b) = parseFloat b"
  by (cases b) (simp_all add: parseFloat_def)

lemmas eval_number =
  parseFloat_def parse_float_str_def parse_decimal_def parse_unsigned_decimal_def
  parse_exponent_def to_double_def pow10_def digits_val_def digit_val_def is_digit_def
  is_ws_def to_number_def to_number_str_def trim_def parse_radix_def radix_digit_def
  isNaN_def isFinite_def fl_int

lemmas eval_host =
  sample_host_def iso_date_parse_def days_from_civil_def days_in_month_def
  digits_val_def digit_val_def is_digit_def time_num_def Date_parse_def js_string_def

text \<open>
  C7. A filter without inclusion values and without bounds lets every row pass. With
  both bounds defined, the range test compares numbers when the raw value and both
  bounds parse as floats, and then keeps the row exactly when the value lies between
  the bounds, both included; otherwise it compares time values when all three have
  one; and when neither comparison is possible the row passes.
\<close>

theorem filter_default_permissive:
  assumes "values_incl f = None \<or> values_incl f = Some []"
  shows
    "(min_bound f = JUndefined \<and> max_bound f = JUndefined \<longrightarrow> filter_matches E r f)
     \<and> (min_bound f \<noteq> JUndefined \<and> max_bound f \<noteq> JUndefined \<longrightarrow>
         (let raw = row_get r (column f);
              num = parseFloat raw;
              minNum = parseFloat (min_bound f);
              maxNum = parseFloat (max_bound f);
              valTime = Date_parse E raw;
              minTime = (case min_bound f of JStr s \<Rightarrow> Date_parse E (JStr s) | b \<Rightarrow> to_number b);
              maxTime = (case max_bound f of JStr s \<Rightarrow> Date_parse E (JStr s) | b \<Rightarrow> to_number b)
          in if \<not> isNaN num \<and> \<not> isNaN minNum \<and> \<not> isNaN maxNum
             then filter_matches E r f \<longleftrightarrow> num_le minNum num \<and> num_le num maxNum
             else if \<not> isNaN valTime \<and> \<not> isNaN minTime \<and> \<not> isNaN maxTime
             then filter_matches E r f \<longleftrightarrow> num_le minTime valTime \<and> num_le valTime maxTime
             else filter_matches E r f))"
proof -
  have time_case: "(case b of JStr s \<Rightarrow> Date_parse E b | _ \<Rightarrow> to_number b)
                  = (case b of JStr s \<Rightarrow> Date_parse E (JStr s) | b \<Rightarrow> to_number b)" for b
    by (cases b) simp_all
  show ?thesis
    unfolding no_values_cases [OF assms]
    by (simp add: range_matches_def bound_parseFloat time_case Let_def)
qed

theorem filter_default_permissive_witness:
  "filter_matches sample_host [(''x'', JStr ''abc'')]
     \<lparr>column = ''x'', values_incl = Some [], min_bound = JUndefined, max_bound = JUndefined\<rparr>
   \<and> \<not> filter_matches sample_host [(''x'', JStr ''12.5'')]
       \<lparr>column = ''x'', values_incl = None, min_bound = JNum (Fin 1), max_bound = JStr ''10''\<rparr>
   \<and> filter_matches sample_host [(''x'', JStr ''2021-03-04'')]
       \<lparr>column = ''x'', values_incl = None,
        min_bound = JStr ''2021-01-01'', max_bound = JStr ''2021-12-31''\<rparr>
   \<and> filter_matches sample_host [(''x'', JStr ''abc'')]
       \<lparr>column = ''x'', values_incl = None, min_bound = JNum (Fin 1), max_bound = JNum (Fin 2)\<rparr>"
proof -
  let ?f1 = "\<lparr>column = ''x'', values_incl = Some [], min_bound = JUndefined, max_bound = JUndefined\<rparr>"
  let ?f2 = "\<lparr>column = ''x'', values_incl = None, min_bound = JNum (Fin 1), max_bound = JStr ''10''\<rparr>"
  let ?f3 = "\<lparr>column = ''x'', values_incl = None,
              min_bound = JStr ''2021-01-01'', max_bound = JStr ''2021-12-31''\<rparr>"
  let ?f4 = "\<lparr>column = ''x'', values_incl = None, min_bound = JNum (Fin 1), max_bound = JNum (Fin 2)\<rparr>"
  have c1: "filter_matches sample_host [(''x'', JStr ''abc'')] ?f1"
    using filter_default_permissive [of ?f1 sample_host "[(''x'', JStr ''abc'')]"] by simp
  have c2: "\<not> filter_matches sample_host [(''x'', JStr ''12.5'')] ?f2"
    using filter_default_permissive [of ?f2 sample_host "[(''x'', JStr ''12.5'')]"]
    by (simp add: row_get_def eval_number fl_eval)
  have c3: "filter_matches sample_host [(''x'', JStr ''2021-03-04'')] ?f3"
    using filter_default_permissive [of ?f3 sample_host "[(''x'', JStr ''2021-03-04'')]"]
    by (simp add: row_get_def eval_number eval_host)
  have c4: "filter_matches sample_host [(''x'', JStr ''abc'')] ?f4"
    using filter_default_permissive [of ?f4 sample_host "[(''x'', JStr ''abc'')]"]
    by (simp add: row_get_def eval_number eval_host)
  from c1 c2 c3 c4 show ?thesis by blast
qed

text \<open>
  C8, as the claim states it, fails where the raw value is \<open>NaN\<close>: the inclusion test
  finds \<open>NaN\<close> in the set, which strict equality would not. The row of the example is
  kept although its value is strictly equal to no member of the inclusion set.
\<close>

theorem applyFilters_strict_equality_counterexample:
  "applyFilters sample_host [[(''x'', JNum NaN)]]
     [\<lparr>column = ''x'', values_incl = Some [JNum NaN], min_bound = JUndefined, max_bound = JUndefined\<rparr>]
     = [[(''x'', JNum NaN)]]
   \<and> \<not> list_ex (strict_equals (row_get [(''x'', JNum NaN)] ''x'')) [JNum NaN]"
  by (simp add: applyFilters_def filter_matches_def array_includes_def same_value_zero_def
      strict_equals_def row_get_def)

text \<open>
  C8, amended. \<^const>\<open>applyFilters\<close> returns the rows that pass every filter, in the order
  of the input. A filter with a non-empty inclusion set keeps a row exactly when the
  raw value of the row is in the set under SameValueZero, which is strict equality on
  the unconverted value for every value but \<open>NaN\<close>. No filter keeps all rows, and no
  row gives no row.
\<close>

theorem applyFilters_and_semantics:
  "applyFilters E data filters = filter (\<lambda>r. \<forall>f \<in> set filters. filter_matches E r f) data
   \<and> (\<forall>r f vs. values_incl f = Some vs \<and> vs \<noteq> [] \<longrightarrow>
         (filter_matches E r f \<longleftrightarrow>
            (\<exists>x \<in> set vs. same_value_zero (row_get r (column f)) x))
         \<and> (row_get r (column f) \<noteq> JNum NaN \<longrightarrow>
              (filter_matches E r f \<longleftrightarrow>
                 (\<exists>x \<in> set vs. strict_equals (row_get r (column f)) x))))
   \<and> applyFilters E data [] = data
   \<and> applyFilters E [] filters = []"
proof -
  have a: "applyFilters E data filters = filter (\<lambda>r. \<forall>f \<in> set filters. filter_matches E r f) data"
    by (simp add: applyFilters_def list_all_iff)
  have b: "filter_matches E r f \<longleftrightarrow> (\<exists>x \<in> set vs. same_value_zero (row_get r (column f)) x)"
    if "values_incl f = Some vs \<and> vs \<noteq> []" for r f vs
  proof -
    from that obtain v ws where "values_incl f = Some (v # ws)" and "vs = v # ws"
      by (cases vs) auto
    then show ?thesis
      by (simp add: filter_matches_def array_includes_def list_ex_iff Let_def)
  qed
  have c: "(\<exists>x \<in> set xs. same_value_zero v x) \<longleftrightarrow> (\<exists>x \<in> set xs. strict_equals v x)"
    if "v \<noteq> JNum NaN" for v xs
    using that by (auto simp: same_value_zero_def strict_equals_def)
  have d: "applyFilters E data [] = data" "applyFilters E [] filters = []"
    by (simp_all add: applyFilters_def)
  from a b c d show ?thesis
    by blast
qed

theorem applyFilters_and_semantics_witness:
  "applyFilters sample_host
     [[(''c'', JStr ''A''), (''n'', JNum (Fin 1))], [(''c'', JStr ''B''), (''n'', JNum (Fin 5))],
      [(''c'', JStr ''A''), (''n'', JNum (Fin 9))]]
     [\<lparr>column = ''c'', values_incl = Some [JStr ''A''], min_bound = JUndefined, max_bound = JUndefined\<rparr>,
      \<lparr>column = ''n'', values_incl = None, min_bound = JNum (Fin 0), max_bound = JNum (Fin 5)\<rparr>]
   = [[(''c'', JStr ''A''), (''n'', JNum (Fin 1))]]"
proof -
  let ?f1 = "\<lparr>column = ''c'', values_incl = Some [JStr ''A''],
              min_bound = JUndefined, max_bound = JUndefined\<rparr>"
  let ?f2 = "\<lparr>column = ''n'', values_incl = None, min_bound = JNum (Fin 0), max_bound = JNum (Fin 5)\<rparr>"
  let ?rows = "[[(''c'', JStr ''A''), (''n'', JNum (Fin 1))], [(''c'', JStr ''B''), (''n'', JNum (Fin 5))],
                [(''c'', JStr ''A''), (''n'', JNum (Fin 9))]]"
  have sem: "filter_matches sample_host r ?f1 \<longleftrightarrow>
               (\<exists>x \<in> set [JStr ''A'']. same_value_zero (row_get r ''c'') x)" for r
    using applyFilters_and_semantics [of sample_host ?rows "[?f1, ?f2]", THEN conjunct2,
        THEN conjunct1, rule_format, where f = ?f1 and vs = "[JStr ''A'']" and r = r]
    by simp
  have rng: "filter_matches sample_host r ?f2 \<longleftrightarrow>
               range_matches sample_host (row_get r ''n'') (JNum (Fin 0)) (JNum (Fin 5))" for r
    by (simp add: filter_matches_def)
  show ?thesis
    using applyFilters_and_semantics [of sample_host ?rows "[?f1, ?f2]"]
    by (simp add: sem rng same_value_zero_def row_get_def range_matches_def eval_number)
qed

text \<open>
  C10. A filter without inclusion values that defines exactly one of its two bounds
  lets every row pass, so a list of such filters leaves the rows as they are.
\<close>

theorem single_bound_filter_noop:
  assumes "\<forall>f \<in> set filters.
             (values_incl f = None \<or> values_incl f = Some [])
             \<and> ((min_bound f = JUndefined) \<noteq> (max_bound f = JUndefined))"
  shows "(\<forall>f \<in> set filters. \<forall>r. filter_matches E r f) \<and> applyFilters E data filters = data"
proof -
  have pass: "filter_matches E r f" if "f \<in> set filters" for f r
  proof -
    from assms that have v: "values_incl f = None \<or> values_incl f = Some []"
      and b: "(min_bound f = JUndefined) \<noteq> (max_bound f = JUndefined)"
      by blast+
    from b show ?thesis
      unfolding no_values_cases [OF v] by auto
  qed
  then have "applyFilters E data filters = data"
    by (simp add: applyFilters_def list_all_iff)
  with pass show ?thesis by blast
qed

theorem single_bound_filter_noop_witness:
  "applyFilters sample_host [[(''n'', JNum (Fin 1))], [(''n'', JNum (Fin 10))]]
     [\<lparr>column = ''n'', values_incl = None, min_bound = JNum (Fin 5), max_bound = JUndefined\<rparr>,
      \<lparr>column = ''n'', values_incl = Some [], min_bound = JUndefined, max_bound = JStr ''2020-01-01''\<rparr>]
   = [[(''n'', JNum (Fin 1))], [(''n'', JNum (Fin 10))]]"
  using single_bound_filter_noop
    [of "[\<lparr>column = ''n'', values_incl = None, min_bound = JNum (Fin 5), max_bound = JUndefined\<rparr>,
          \<lparr>column = ''n'', values_incl = Some [], min_bound = JUndefined,
           max_bound = JStr ''2020-01-01''\<rparr>]"
        sample_host "[[(''n'', JNum (Fin 1))], [(''n'', JNum (Fin 10))]]"]
  by simp

section \<open>Properties of the summary statistics\<close>

subsection \<open>The sort\<close>

















subsection \<open>The example\<close>








text \<open>
  Rounding to two decimals works on doubles: the double read from \<^verbatim>\<open>1.005\<close> lies below
  that number, its product with 100 is rounded to a double below 100.5, and the result
  is 1.
\<close>

lemma round2_1005: "round2 (parseFloat (JStr ''1.005'')) = Fin 1"
proof -
  have "parseFloat (JStr ''1.005'') = Fin (4526117625507348 / 4503599627370496)"
    by (simp add: eval_number fl_eval)
  then show ?thesis
    by (simp add: round2_def to_double_def fl_eval)
qed


section \<open>Properties of the column names\<close>

lemma suffix_chain_0: "suffix_chain s 0 = []"
  by (simp add: suffix_chain_def)

lemma suffix_chain_Suc: "suffix_chain s (Suc k) = ''_'' @ nat_to_string s @ suffix_chain (Suc s) k"
proof -
  have "[s..<s + Suc k] = s # [Suc s..<Suc s + k]"
    by (subst upt_rec) simp
  then show ?thesis by (simp add: suffix_chain_def)
qed

lemma dedupe_loop_chain:
  "\<exists>k. dedupe_loop existing c s = c @ suffix_chain s k
       \<and> c @ suffix_chain s k \<notin> set existing
       \<and> (\<forall>j < k. c @ suffix_chain s j \<in> set existing)"
proof (induction existing c s rule: dedupe_loop.induct)
  case (1 existing c s)
  show ?case
  proof (cases "c \<in> set existing")
    case False
    then have "dedupe_loop existing c s = c @ suffix_chain s 0
                 \<and> c @ suffix_chain s 0 \<notin> set existing
                 \<and> (\<forall>j < 0. c @ suffix_chain s j \<in> set existing)"
      by (simp add: dedupe_loop.simps [of existing c s] suffix_chain_0)
    then show ?thesis by blast
  next
    case True
    from "1.IH" [OF True] obtain k where
      k: "dedupe_loop existing (c @ ''_'' @ nat_to_string s) (Suc s)
            = (c @ ''_'' @ nat_to_string s) @ suffix_chain (Suc s) k"
         "(c @ ''_'' @ nat_to_string s) @ suffix_chain (Suc s) k \<notin> set existing"
         "\<forall>j < k. (c @ ''_'' @ nat_to_string s) @ suffix_chain (Suc s) j \<in> set existing"
      by blast
    have eq: "c @ suffix_chain s (Suc j) = (c @ ''_'' @ nat_to_string s) @ suffix_chain (Suc s) j" for j
      by (simp add: suffix_chain_Suc)
    have run: "dedupe_loop existing c s = c @ suffix_chain s (Suc k)"
      using True k(1) by (simp add: dedupe_loop.simps [of existing c s] eq)
    have fresh: "c @ suffix_chain s (Suc k) \<notin> set existing"
      using k(2) unfolding eq .
    have taken: "c @ suffix_chain s j \<in> set existing" if "j < Suc k" for j
    proof (cases j)
      case 0
      with True show ?thesis by (simp add: suffix_chain_0)
    next
      case (Suc j')
      with that k(3) have "(c @ ''_'' @ nat_to_string s) @ suffix_chain (Suc s) j' \<in> set existing"
        by simp
      with Suc show ?thesis by (simp add: suffix_chain_Suc)
    qed
    from run fresh taken show ?thesis by blast
  qed
qed

lemma dedupe_loop_fresh: "dedupe_loop existing c s \<notin> set existing"
  using dedupe_loop_chain [of existing c s] by auto

lemma sanitize_fresh: "fst (sanitize nameMap cc raw) \<notin> snd ` set nameMap"
proof -
  have "dedupe_loop (map snd nameMap) c 1 \<notin> snd ` set nameMap" for c
    using dedupe_loop_fresh [of "map snd nameMap" c 1] by simp
  then show ?thesis by (simp add: sanitize_def Let_def)
qed

lemma sanitize_counter:
  "snd (sanitize nameMap cc raw) = (if invalid_key raw then cc + 1 else cc)"
  by (simp add: sanitize_def invalid_key_def Let_def)

lemma update_values_subset: "snd ` set (AList.update k v m) \<subseteq> insert v (snd ` set m)"
  by (induction m) auto

lemma update_values_distinct:
  "distinct (map snd m) \<Longrightarrow> v \<notin> snd ` set m \<Longrightarrow> distinct (map snd (AList.update k v m))"
proof (induction m)
  case Nil
  then show ?case by simp
next
  case (Cons p m)
  have "snd ` set (AList.update k v m) \<subseteq> insert v (snd ` set m)"
    by (rule update_values_subset)
  with Cons show ?case by (auto simp: image_iff)
qed

lemma sanitize_step_invariant:
  assumes "distinct (map snd (fst st))" and "distinct (map fst (fst st))"
  shows "distinct (map snd (fst (sanitize_step st n)))
         \<and> distinct (map fst (fst (sanitize_step st n)))
         \<and> fst ` set (fst (sanitize_step st n)) = insert n (fst ` set (fst st))
         \<and> snd (sanitize_step st n) = (if invalid_key n then snd st + 1 else snd st)"
  using assms
  by (simp add: sanitize_step_def Let_def update_values_distinct sanitize_fresh
      distinct_update dom_update sanitize_counter)

lemma sanitize_fold_invariant:
  assumes "distinct (map snd (fst st))" and "distinct (map fst (fst st))"
  shows "distinct (map snd (fst (foldl sanitize_step st ks)))
         \<and> distinct (map fst (fst (foldl sanitize_step st ks)))
         \<and> fst ` set (fst (foldl sanitize_step st ks)) = set ks \<union> fst ` set (fst st)
         \<and> snd (foldl sanitize_step st ks) = snd st + length (filter invalid_key ks)"
  using assms
proof (induction ks arbitrary: st)
  case Nil
  then show ?case by simp
next
  case (Cons k ks)
  from sanitize_step_invariant [OF Cons.prems, of k]
  have step: "distinct (map snd (fst (sanitize_step st k)))"
    "distinct (map fst (fst (sanitize_step st k)))"
    "fst ` set (fst (sanitize_step st k)) = insert k (fst ` set (fst st))"
    "snd (sanitize_step st k) = (if invalid_key k then snd st + 1 else snd st)"
    by blast+
  from Cons.IH [OF step(1) step(2)] step(3) step(4) show ?case
    by auto
qed

lemma nameMap_values_distinct: "distinct (map snd (build_nameMap ks))"
  using sanitize_fold_invariant [of "([], 1)" ks] by (simp add: build_nameMap_def)

lemma nameMap_keys_distinct: "distinct (map fst (build_nameMap ks))"
  using sanitize_fold_invariant [of "([], 1)" ks] by (simp add: build_nameMap_def)

lemma nameMap_keys: "fst ` set (build_nameMap ks) = set ks"
  using sanitize_fold_invariant [of "([], 1)" ks] by (simp add: build_nameMap_def)

lemma nameMap_counter: "snd (foldl sanitize_step ([], 1) ks) = 1 + length (filter invalid_key ks)"
  using sanitize_fold_invariant [of "([], 1)" ks] by simp

text \<open>
  C4, as the claim states it, fails in its example. The suffixes are appended to the
  candidate of the round before, not to the first candidate, so three keys that trim to
  \<open>a\<close> get the names \<open>a\<close>, \<open>a_1\<close> and \<open>a_1_2\<close>. Three identical keys are one key of the
  map, which is set three times and ends with the name \<open>a\<close>.
\<close>

theorem sanitize_suffix_counterexample:
  "map snd (build_nameMap [''a'', '' a'', ''a '']) = [''a'', ''a_1'', ''a_1_2'']
   \<and> map snd (build_nameMap [''a'', ''a'', ''a'']) = [''a'']"
  by code_simp

text \<open>
  C4, amended. A key whose trimmed form is empty, is underscores followed by digits, or
  is an \<^verbatim>\<open>__EMPTY\<close> marker gets the candidate \<open>Column_n\<close>, where the counter \<open>n\<close> goes up by
  one for each such key and stays as it is for any other key; the other keys have
  their trimmed form as candidate. The name is the candidate followed by the suffixes
  \<open>_1\<close>, \<open>_2\<close>, ... one after the other, as many as it takes to be different from every
  name given so far: each shorter run of suffixes gives a name that is taken. So all
  names are distinct, and keys that trim to \<open>a\<close> three times get \<open>a\<close>, \<open>a_1\<close>, \<open>a_1_2\<close>.
\<close>

theorem sanitize_names:
  "(let candidate = (if invalid_key raw then ''Column_'' @ nat_to_string colCounter else trim raw);
        res = sanitize nameMap colCounter raw
    in snd res = (if invalid_key raw then colCounter + 1 else colCounter)
       \<and> fst res \<notin> set (map snd nameMap)
       \<and> (\<exists>k. fst res = candidate @ suffix_chain 1 k
               \<and> (\<forall>j < k. candidate @ suffix_chain 1 j \<in> set (map snd nameMap))))
   \<and> snd (foldl sanitize_step ([], 1) rawColumnNames)
       = 1 + length (filter invalid_key rawColumnNames)
   \<and> distinct (map snd (build_nameMap rawColumnNames))
   \<and> map snd (build_nameMap [''a'', '' a'', ''a '']) = [''a'', ''a_1'', ''a_1_2'']"
proof -
  let ?cand = "if invalid_key raw then ''Column_'' @ nat_to_string colCounter else trim raw"
  have cand: "fst (sanitize nameMap colCounter raw) = dedupe_loop (map snd nameMap) ?cand 1"
    by (simp add: sanitize_def invalid_key_def Let_def)
  from dedupe_loop_chain [of "map snd nameMap" ?cand 1]
  have chain: "\<exists>k. fst (sanitize nameMap colCounter raw) = ?cand @ suffix_chain 1 k
                 \<and> (\<forall>j < k. ?cand @ suffix_chain 1 j \<in> set (map snd nameMap))"
    unfolding cand by blast
  have fresh: "fst (sanitize nameMap colCounter raw) \<notin> set (map snd nameMap)"
    using sanitize_fresh [of nameMap colCounter raw] by simp
  have ex: "map snd (build_nameMap [''a'', '' a'', ''a '']) = [''a'', ''a_1'', ''a_1_2'']"
    by code_simp
  show ?thesis
    using chain fresh ex sanitize_counter [of nameMap colCounter raw]
      nameMap_counter [of rawColumnNames] nameMap_values_distinct [of rawColumnNames]
    by (simp add: Let_def)
qed

theorem sanitize_names_witness:
  "sanitize [(''a'', ''a''), ('' a'', ''a_1'')] 1 ''a '' = (''a_1_2'', 1)
   \<and> sanitize [(''a'', ''a''), ('' a'', ''a_1'')] 1 ''__EMPTY_3'' = (''Column_1'', 2)
   \<and> map snd (build_nameMap ['''', ''Column_1'', ''_12'', ''__empty'', ''x'', '' x''])
       = [''Column_1'', ''Column_1_1'', ''Column_2'', ''Column_3'', ''x'', ''x_1'']"
proof -
  have e1: "sanitize [(''a'', ''a''), ('' a'', ''a_1'')] 1 ''a '' = (''a_1_2'', 1)"
    by code_simp
  have e2: "sanitize [(''a'', ''a''), ('' a'', ''a_1'')] 1 ''__EMPTY_3'' = (''Column_1'', 2)"
    by code_simp
  have e3: "map snd (build_nameMap ['''', ''Column_1'', ''_12'', ''__empty'', ''x'', '' x''])
              = [''Column_1'', ''Column_1_1'', ''Column_2'', ''Column_3'', ''x'', ''x_1'']"
    by code_simp
  show ?thesis
    using sanitize_names [of "''a ''" 1 "[(''a'', ''a''), ('' a'', ''a_1'')]"
            "['''', ''Column_1'', ''_12'', ''__empty'', ''x'', '' x'']"]
      e1 e2 e3
    by simp
qed

section \<open>Properties of the profiler\<close>

lemma analyzeColumn_name: "name (analyzeColumn E nm vs) = nm"
  by (simp add: analyzeColumn_def Let_def)

lemma fold_update_keys:
  "fst ` set (foldl (\<lambda>newRow orig. AList.update (f orig) (g orig) newRow) acc ks)
     = fst ` set acc \<union> f ` set ks"
  by (induction ks arbitrary: acc) (auto simp: dom_update)

lemma clean_row_keys: "set (object_keys (clean_row nameMap ks r)) = name_of nameMap ` set ks"
  using fold_update_keys [of "name_of nameMap" "\<lambda>orig. clean_value (row_get r orig)" "[]" ks]
  by (simp add: clean_row_def object_keys_def)

lemma name_of_image: "name_of (build_nameMap ks) ` set ks = snd ` set (build_nameMap ks)"
proof -
  let ?m = "build_nameMap ks"
  have d: "distinct (map fst ?m)" by (rule nameMap_keys_distinct)
  have look: "map_of ?m k = Some v \<longleftrightarrow> (k, v) \<in> set ?m" for k v
    using d by (rule map_of_eq_Some_iff)
  show ?thesis
  proof (intro set_eqI iffI)
    fix v assume "v \<in> name_of ?m ` set ks"
    then obtain k where k: "k \<in> set ks" "v = name_of ?m k" by blast
    from k(1) nameMap_keys [of ks] obtain w where "(k, w) \<in> set ?m" by force
    with look k(2) show "v \<in> snd ` set ?m" by (force simp: name_of_def)
  next
    fix v assume "v \<in> snd ` set ?m"
    then obtain k where kv: "(k, v) \<in> set ?m" by force
    with nameMap_keys [of ks] have "k \<in> set ks" by force
    moreover from kv look have "map_of ?m k = Some v" by blast
    then have "name_of ?m k = v" by (simp add: name_of_def)
    ultimately show "v \<in> name_of ?m ` set ks" by blast
  qed
qed

lemma clean_row_cong:
  assumes "\<forall>k \<in> set ks. row_get r' k = row_get r k"
  shows "clean_row nameMap ks r' = clean_row nameMap ks r"
  unfolding clean_row_def using assms
  by (intro foldl_cong) simp_all

lemma profile_of_rows:
  "generateDatasetProfile E (Some (firstRow # rest)) nm =
     Inr \<lparr>dataset_name = strip_extension nm,
          columns =
            map (\<lambda>c. analyzeColumn E c
                       (column_data (map (clean_row (build_nameMap (object_keys firstRow))
                                            (object_keys firstRow)) (firstRow # rest)) c))
              (nonEmptyColumns (build_nameMap (object_keys firstRow))
                 (map (clean_row (build_nameMap (object_keys firstRow)) (object_keys firstRow))
                    (firstRow # rest))),
          sample_rows =
            take 10 (map (clean_row (build_nameMap (object_keys firstRow)) (object_keys firstRow))
                       (firstRow # rest)),
          rows = map (clean_row (build_nameMap (object_keys firstRow)) (object_keys firstRow))
                   (firstRow # rest),
          total_rows = length (firstRow # rest)\<rparr>"
  by (simp add: generateDatasetProfile_def Let_def)

lemma length_filter_card:
  "distinct xs \<Longrightarrow> length (filter P xs) = card {x \<in> set xs. P x}"
  using distinct_card [of "filter P xs"] by simp

text \<open>
  C1 fails on the code. A column whose value is empty in every row is left out of the
  columns of the profile, but the cleaned rows keep its key: for the one row
  \<open>{a: 1, b: ""}\<close> the profile has the single column \<open>a\<close> while its row, also among the
  sample rows, has the keys \<open>a\<close> and \<open>b\<close>.
\<close>

theorem empty_column_stays_in_rows:
  "map_sum id (\<lambda>p. (map name (columns p), map object_keys (rows p), map object_keys (sample_rows p)))
     (generateDatasetProfile E (Some [[(''a'', JNum (Fin 1)), (''b'', JStr [])]]) ''data.csv'')
   = Inr ([''a''], [[''a'', ''b'']], [[''a'', ''b'']])"
proof -
  have m: "build_nameMap [''a'', ''b''] = [(''a'', ''a''), (''b'', ''b'')]"
    by code_simp
  have c: "clean_row [(''a'', ''a''), (''b'', ''b'')] [''a'', ''b''] [(''a'', JNum (Fin 1)), (''b'', JStr [])]
             = [(''a'', JNum (Fin 1)), (''b'', JStr [])]"
    by code_simp
  have n: "nonEmptyColumns [(''a'', ''a''), (''b'', ''b'')] [[(''a'', JNum (Fin 1)), (''b'', JStr [])]]
             = [''a'']"
    by code_simp
  show ?thesis
    unfolding profile_of_rows
    by (simp add: object_keys_def m c n analyzeColumn_name)
qed

text \<open>
  C6. The profiler fails with the empty-dataset error exactly when the rows are absent
  or empty. On any other input it returns a profile whose row count is the number of
  its cleaned rows, which is the number of the raw rows, and which has as many columns
  as there are sanitized column names with a non-empty value in some cleaned row.
\<close>

theorem generateDatasetProfile_error_and_counts:
  "(generateDatasetProfile E data nm = Inl EmptyDataset \<longleftrightarrow> data = None \<or> data = Some [])
   \<and> (\<forall>firstRow rest. data = Some (firstRow # rest) \<longrightarrow>
        (\<exists>p. generateDatasetProfile E data nm = Inr p
             \<and> total_rows p = length (rows p)
             \<and> length (rows p) = length (firstRow # rest)
             \<and> length (columns p)
                 = card {c \<in> set (map snd (build_nameMap (object_keys firstRow))).
                          \<exists>r \<in> set (rows p). \<not> is_empty_value (row_get r c)}))"
proof -
  have err: "generateDatasetProfile E data nm = Inl EmptyDataset \<longleftrightarrow> data = None \<or> data = Some []"
  proof (cases data)
    case None
    then show ?thesis by (simp add: generateDatasetProfile_def)
  next
    case (Some rs)
    then show ?thesis
      by (cases rs) (simp_all add: generateDatasetProfile_def Let_def)
  qed
  have ok: "\<exists>p. generateDatasetProfile E data nm = Inr p
               \<and> total_rows p = length (rows p)
               \<and> length (rows p) = length (firstRow # rest)
               \<and> length (columns p)
                   = card {c \<in> set (map snd (build_nameMap (object_keys firstRow))).
                            \<exists>r \<in> set (rows p). \<not> is_empty_value (row_get r c)}"
    if d: "data = Some (firstRow # rest)" for firstRow rest
  proof -
    let ?m = "build_nameMap (object_keys firstRow)"
    let ?cleaned = "map (clean_row ?m (object_keys firstRow)) (firstRow # rest)"
    have "length (nonEmptyColumns ?m ?cleaned)
            = card {c \<in> set (map snd ?m). \<exists>r \<in> set ?cleaned. \<not> is_empty_value (row_get r c)}"
      unfolding nonEmptyColumns_def list_ex_iff
      by (rule length_filter_card) (rule nameMap_values_distinct)
    then show ?thesis
      unfolding d profile_of_rows by simp
  qed
  from err ok show ?thesis by blast
qed

theorem generateDatasetProfile_error_and_counts_witness:
  "generateDatasetProfile sample_host None ''d.csv'' = Inl EmptyDataset
   \<and> generateDatasetProfile sample_host (Some []) ''d.csv'' = Inl EmptyDataset
   \<and> (\<exists>p. generateDatasetProfile sample_host
             (Some [[(''a'', JStr ''x''), ('' '', JNull)], [(''a'', JStr ''''), (''c'', JStr ''y'')]]) ''d.csv''
           = Inr p
           \<and> total_rows p = 2 \<and> length (rows p) = 2 \<and> length (columns p) = 1)"
proof -
  let ?first = "[(''a'', JStr ''x''), ('' '', JNull)]"
  let ?rest = "[[(''a'', JStr ''''), (''c'', JStr ''y'')]]"
  have m: "build_nameMap (object_keys ?first) = [(''a'', ''a''), ('' '', ''Column_1'')]"
    by code_simp
  have cnt: "card {c \<in> set (map snd [(''a'', ''a''), ('' '', ''Column_1'')]).
               \<exists>r \<in> set (map (clean_row [(''a'', ''a''), ('' '', ''Column_1'')] (object_keys ?first))
                            (?first # ?rest)).
                 \<not> is_empty_value (row_get r c)} = 1"
    by code_simp
  from generateDatasetProfile_error_and_counts [of sample_host "Some (?first # ?rest)" "''d.csv''"]
  obtain p where p: "generateDatasetProfile sample_host (Some (?first # ?rest)) ''d.csv'' = Inr p"
    "total_rows p = length (rows p)" "length (rows p) = length (?first # ?rest)"
    "length (columns p)
       = card {c \<in> set (map snd (build_nameMap (object_keys ?first))).
                \<exists>r \<in> set (rows p). \<not> is_empty_value (row_get r c)}"
    by blast
  from p(1) have r: "rows p = map (clean_row (build_nameMap (object_keys ?first)) (object_keys ?first))
                               (?first # ?rest)"
    unfolding profile_of_rows by auto
  from p(4) have "length (columns p) = 1"
    unfolding r m cnt .
  with p(1,2,3) have third: "\<exists>p. generateDatasetProfile sample_host (Some (?first # ?rest)) ''d.csv'' = Inr p
           \<and> total_rows p = 2 \<and> length (rows p) = 2 \<and> length (columns p) = 1"
    by simp
  have first: "generateDatasetProfile sample_host None ''d.csv'' = Inl EmptyDataset"
    using generateDatasetProfile_error_and_counts [of sample_host None "''d.csv''"] by simp
  have second: "generateDatasetProfile sample_host (Some []) ''d.csv'' = Inl EmptyDataset"
    using generateDatasetProfile_error_and_counts [of sample_host "Some []" "''d.csv''"] by simp
  from first second third show ?thesis by blast
qed

text \<open>
  C9. The profile depends on the later rows only through their values under the keys
  of the first row: two inputs with the same first row whose later rows agree on those
  keys give the same result, whatever other keys the later rows have. The keys of every
  cleaned row and of every sample row are the sanitized names of the first row's keys,
  and every column of the profile has one of those names.
\<close>

theorem profile_determined_by_first_row:
  assumes "length rest' = length rest"
    and "\<forall>i < length rest. \<forall>k \<in> set (object_keys firstRow).
           row_get (rest' ! i) k = row_get (rest ! i) k"
  shows
    "generateDatasetProfile E (Some (firstRow # rest')) nm
       = generateDatasetProfile E (Some (firstRow # rest)) nm
     \<and> (\<forall>p. generateDatasetProfile E (Some (firstRow # rest)) nm = Inr p \<longrightarrow>
          (\<forall>r \<in> set (rows p) \<union> set (sample_rows p).
             set (object_keys r) = set (map snd (build_nameMap (object_keys firstRow))))
          \<and> set (map name (columns p)) \<subseteq> set (map snd (build_nameMap (object_keys firstRow))))"
proof -
  let ?ks = "object_keys firstRow"
  let ?m = "build_nameMap ?ks"
  have same: "map (clean_row ?m ?ks) rest' = map (clean_row ?m ?ks) rest"
  proof (rule nth_equalityI)
    show "length (map (clean_row ?m ?ks) rest') = length (map (clean_row ?m ?ks) rest)"
      using assms(1) by simp
  next
    fix i assume "i < length (map (clean_row ?m ?ks) rest')"
    with assms have i: "i < length rest" "i < length rest'"
      and "\<forall>k \<in> set ?ks. row_get (rest' ! i) k = row_get (rest ! i) k"
      by simp_all
    then show "map (clean_row ?m ?ks) rest' ! i = map (clean_row ?m ?ks) rest ! i"
      by (simp add: clean_row_cong)
  qed
  have eq: "generateDatasetProfile E (Some (firstRow # rest')) nm
              = generateDatasetProfile E (Some (firstRow # rest)) nm"
    unfolding profile_of_rows using same assms(1) by simp
  have keys: "set (object_keys (clean_row ?m ?ks r)) = set (map snd ?m)" for r
    by (simp add: clean_row_keys name_of_image)
  have cols: "set (map name (map (\<lambda>c. analyzeColumn E c (vs c)) (nonEmptyColumns ?m cleaned)))
                \<subseteq> set (map snd ?m)" for vs cleaned
    by (auto simp: analyzeColumn_name nonEmptyColumns_def)
  have shape: "(\<forall>r \<in> set (rows p) \<union> set (sample_rows p). set (object_keys r) = set (map snd ?m))
               \<and> set (map name (columns p)) \<subseteq> set (map snd ?m)"
    if "generateDatasetProfile E (Some (firstRow # rest)) nm = Inr p" for p
  proof -
    from that have p: "rows p = map (clean_row ?m ?ks) (firstRow # rest)"
      "sample_rows p = take 10 (map (clean_row ?m ?ks) (firstRow # rest))"
      "columns p = map (\<lambda>c. analyzeColumn E c
                              (column_data (map (clean_row ?m ?ks) (firstRow # rest)) c))
                     (nonEmptyColumns ?m (map (clean_row ?m ?ks) (firstRow # rest)))"
      unfolding profile_of_rows by auto
    have "set (object_keys r) = set (map snd ?m)" if "r \<in> set (rows p) \<union> set (sample_rows p)" for r
    proof -
      from that have "r \<in> set (map (clean_row ?m ?ks) (firstRow # rest))"
        unfolding p by (auto dest: in_set_takeD)
      then obtain r0 where "r = clean_row ?m ?ks r0" by auto
      then show ?thesis by (simp only: keys)
    qed
    moreover have "set (map name (columns p)) \<subseteq> set (map snd ?m)"
      unfolding p(3) by (rule cols)
    ultimately show ?thesis by blast
  qed
  from eq shape show ?thesis by blast
qed

theorem profile_determined_by_first_row_witness:
  "generateDatasetProfile sample_host
     (Some [[(''a'', JStr ''x'')], [(''a'', JStr ''y''), (''b'', JStr ''later'')]]) ''d.csv''
   = generateDatasetProfile sample_host
       (Some [[(''a'', JStr ''x'')], [(''a'', JStr ''y'')]]) ''d.csv''
   \<and> map_sum id (\<lambda>p. (map name (columns p), map object_keys (rows p)))
        (generateDatasetProfile sample_host
           (Some [[(''a'', JStr ''x'')], [(''a'', JStr ''y''), (''b'', JStr ''later'')]]) ''d.csv'')
     = Inr ([''a''], [[''a''], [''a'']])"
proof -
  let ?first = "[(''a'', JStr ''x'')]"
  let ?rest = "[[(''a'', JStr ''y''), (''b'', JStr ''later'')]]"
  let ?rest' = "[[(''a'', JStr ''y'')]]"
  have h1: "length ?rest = length ?rest'" by simp
  have h2: "\<forall>i < length ?rest'. \<forall>k \<in> set (object_keys ?first).
              row_get (?rest ! i) k = row_get (?rest' ! i) k"
    by (simp add: object_keys_def row_get_def)
  note inst = profile_determined_by_first_row [OF h1 h2, of sample_host "''d.csv''"]
  have m: "build_nameMap [''a''] = [(''a'', ''a'')]"
    by code_simp
  have c: "map (clean_row [(''a'', ''a'')] [''a'']) (?first # ?rest)
             = [[(''a'', JStr ''x'')], [(''a'', JStr ''y'')]]"
    by code_simp
  have n: "nonEmptyColumns [(''a'', ''a'')] [[(''a'', JStr ''x'')], [(''a'', JStr ''y'')]] = [''a'']"
    by code_simp
  have shape: "map_sum id (\<lambda>p. (map name (columns p), map object_keys (rows p)))
        (generateDatasetProfile sample_host (Some (?first # ?rest)) ''d.csv'')
     = Inr ([''a''], [[''a''], [''a'']])"
    unfolding profile_of_rows
    using c by (simp add: object_keys_def m n analyzeColumn_name)
  from inst shape show ?thesis by blast
qed

section \<open>Properties of type detection\<close>

lemma finite_not_NaN: "isFinite n \<Longrightarrow> \<not> isNaN n"
  by (cases n) (simp_all add: isFinite_def isNaN_def)

lemma count_value_bucket:
  "count_value E c v =
     (case spec_bucket E v of
        Some BooleanBucket \<Rightarrow> c\<lparr>booleanCount := booleanCount c + 1\<rparr>
      | Some NumericBucket \<Rightarrow>
          c\<lparr>numericCount := numericCount c + 1,
            integerCount :=
              (if is_integer (to_number_str (remove_separators (spec_string E v)))
               then integerCount c + 1 else integerCount c)\<rparr>
      | Some DateBucket \<Rightarrow> c\<lparr>dateCount := dateCount c + 1\<rparr>
      | None \<Rightarrow> c)"
  using finite_not_NaN [of "to_number_str (remove_separators (spec_string E v))"]
  by (auto simp: count_value_def spec_bucket_def spec_is_boolean_def spec_is_numeric_def
      spec_is_date_def spec_string_def Let_def)

lemma fold_counts:
  "booleanCount (foldl (count_value E) c vs) = booleanCount c + bucket_count E BooleanBucket vs
   \<and> numericCount (foldl (count_value E) c vs) = numericCount c + bucket_count E NumericBucket vs
   \<and> dateCount (foldl (count_value E) c vs) = dateCount c + bucket_count E DateBucket vs
   \<and> integerCount (foldl (count_value E) c vs) = integerCount c + integer_count E vs"
proof (induction vs arbitrary: c)
  case Nil
  then show ?case by (simp add: bucket_count_def integer_count_def)
next
  case (Cons v vs)
  show ?case
  proof (cases "spec_bucket E v")
    case None
    then show ?thesis
      using Cons [of c] by (simp add: count_value_bucket bucket_count_def integer_count_def)
  next
    case (Some b)
    then show ?thesis
      using Cons [of "count_value E c v"]
      by (cases b) (simp_all add: count_value_bucket bucket_count_def integer_count_def)
  qed
qed

lemma detect_is_spec: "vs \<noteq> [] \<Longrightarrow> detectColumnType E vs = spec_detect E vs"
  using fold_counts
    [of E "\<lparr>numericCount = 0, integerCount = 0, dateCount = 0, booleanCount = 0\<rparr>" vs]
  by (simp add: detectColumnType_def spec_detect_def Let_def)

lemma bucket_counts_le:
  "bucket_count E BooleanBucket vs + bucket_count E NumericBucket vs + bucket_count E DateBucket vs
     \<le> length vs"
proof (induction vs)
  case Nil
  then show ?case by (simp add: bucket_count_def)
next
  case (Cons v vs)
  then show ?case
    by (cases "spec_bucket E v") (auto simp: bucket_count_def)
qed

text \<open>
  C2. On a list of values that is not empty, the counters of the loop are the numbers
  of values in the boolean, the numeric and the date bucket, where the bucket of a
  value is decided by the boolean test first, then the numeric patterns with a finite
  parsed number, then the date test with a string longer than four characters; a value
  is in one bucket at most, so the three counters add up to the length at most. The
  type is boolean when the boolean fraction is at least 0.8, else date when the date
  fraction is, else integer or float when the numeric fraction is (integer when at
  least 0.9 of the numeric values are integers), else string. With five values of which
  four fall in the date bucket the type is date.
\<close>

theorem detectColumnType_buckets:
  assumes "vs \<noteq> []"
  shows
    "detectColumnType E vs = spec_detect E vs
     \<and> (\<forall>v \<in> set vs.
          (spec_bucket E v = Some BooleanBucket \<longleftrightarrow> spec_is_boolean E v)
          \<and> (spec_bucket E v = Some NumericBucket \<longleftrightarrow>
               \<not> spec_is_boolean E v \<and> spec_is_numeric E v)
          \<and> (spec_bucket E v = Some DateBucket \<longleftrightarrow>
               \<not> spec_is_boolean E v \<and> \<not> spec_is_numeric E v \<and> spec_is_date E v))
     \<and> bucket_count E BooleanBucket vs + bucket_count E NumericBucket vs
         + bucket_count E DateBucket vs \<le> length vs
     \<and> (length vs = 5 \<and> bucket_count E DateBucket vs = 4 \<longrightarrow> detectColumnType E vs = TDate)"
proof -
  have order: "(spec_bucket E v = Some BooleanBucket \<longleftrightarrow> spec_is_boolean E v)
          \<and> (spec_bucket E v = Some NumericBucket \<longleftrightarrow>
               \<not> spec_is_boolean E v \<and> spec_is_numeric E v)
          \<and> (spec_bucket E v = Some DateBucket \<longleftrightarrow>
               \<not> spec_is_boolean E v \<and> \<not> spec_is_numeric E v \<and> spec_is_date E v)" for v
    by (simp add: spec_bucket_def)
  have four: "detectColumnType E vs = TDate"
    if len: "length vs = 5" and d: "bucket_count E DateBucket vs = 4"
  proof -
    from bucket_counts_le [of E vs] len d have "bucket_count E BooleanBucket vs \<le> 1"
      by simp
    then have "\<not> (real (bucket_count E BooleanBucket vs) / 5 \<ge> 8 / 10)"
      by simp
    with len d show ?thesis
      by (simp add: detect_is_spec [OF assms] spec_detect_def Let_def)
  qed
  from detect_is_spec [OF assms] order bucket_counts_le [of E vs] four show ?thesis
    by blast
qed

theorem detectColumnType_buckets_witness:
  "detectColumnType sample_host
     [JStr ''2020-01-15'', JStr ''2021-02-16'', JStr ''1'', JStr ''2023-04-18'', JStr ''2024-05-19'']
   = TDate"
proof -
  let ?vs = "[JStr ''2020-01-15'', JStr ''2021-02-16'', JStr ''1'', JStr ''2023-04-18'',
              JStr ''2024-05-19'']"
  have str: "map (spec_string sample_host) ?vs
               = [''2020-01-15'', ''2021-02-16'', ''1'', ''2023-04-18'', ''2024-05-19'']"
    by code_simp
  have bool: "map (\<lambda>s. s \<in> {''true'', ''false'', ''1'', ''0'', ''yes'', ''no''})
                [''2020-01-15'', ''2021-02-16'', ''1'', ''2023-04-18'', ''2024-05-19'']
              = [False, False, True, False, False]"
    by code_simp
  have pat: "map (\<lambda>s. thousandsPattern s \<or> simpleNumericPattern s)
               [''2020-01-15'', ''2021-02-16'', ''2023-04-18'', ''2024-05-19'']
             = [False, False, False, False]"
    by code_simp
  have date: "map (\<lambda>s. iso_date_parse s \<noteq> None \<and> length s > 4)
                [''2020-01-15'', ''2021-02-16'', ''2023-04-18'', ''2024-05-19'']
              = [True, True, True, True]"
    by code_simp
  have buckets: "map (spec_bucket sample_host) ?vs
                   = [Some DateBucket, Some DateBucket, Some BooleanBucket, Some DateBucket,
                      Some DateBucket]"
    using str bool pat date
    by (simp add: spec_bucket_def spec_is_boolean_def spec_is_numeric_def spec_is_date_def
        sample_host_def)
  have cnt: "bucket_count sample_host DateBucket ?vs = 4"
    using buckets by (simp add: bucket_count_def)
  have ne: "?vs \<noteq> []" by simp
  have len: "length ?vs = 5" by simp
  note four = detectColumnType_buckets [OF ne, of sample_host, THEN conjunct2, THEN conjunct2,
      THEN conjunct2]
  show ?thesis
    by (rule mp [OF four conjI [OF len cnt]])
qed

section \<open>The year-over-year example\<close>
































end
